theory Spec2Isabelle
  imports Main
begin

section \<open>Python values and exceptions\<close>

text \<open>
  The scraper is dynamically typed. The values that flow through the functions
  verified here are \<^verbatim>\<open>None\<close>, text, and tuples of text (a jurisdiction's
  configuration holds label texts, control names, format strings and tuples of
  field labels). All three are hashable, so each can be a dictionary key.
\<close>

datatype pyval = PNone | PStr string | PTuple "string list"

text \<open>Python truthiness, as used by \<^verbatim>\<open>x or y\<close> and \<^verbatim>\<open>bool(x)\<close>.\<close>

fun truthy :: "pyval \<Rightarrow> bool" where
  "truthy PNone = False"
| "truthy (PStr s) = (s \<noteq> [])"
| "truthy (PTuple xs) = (xs \<noteq> [])"

text \<open>
  Every exception the modelled code can raise is a value. \<open>SkipItem\<close> is the
  control-flow signal of \<^verbatim>\<open>ItemGenerator\<close>. \<open>ConfigurationMissing\<close> is the failure of
  \<^verbatim>\<open>getattr(self.cfg, name)\<close> on a name the jurisdiction configuration does not
  define (Python's \<^verbatim>\<open>AttributeError\<close> on the configuration object); it carries the
  name that was looked up. \<open>AttributeError\<close> is a method call on \<^verbatim>\<open>None\<close>.
  \<open>ReError\<close> is \<^verbatim>\<open>re.error\<close>. \<open>Unmodelled\<close> marks an input of a library function
  (an XPath expression, a \<^verbatim>\<open>strptime\<close> directive) outside the fragment modelled
  below, \<open>TransportError\<close> a failure of the HTTP client.
\<close>

datatype exn =
    SkipItem
  | ConfigurationMissing string
  | NotImplementedError
  | AttributeError
  | KeyError string
  | TypeError
  | ValueError
  | ReError
  | Unmodelled
  | TransportError string

type_synonym 'a result = "exn + 'a"

definition bind_exn :: "'a result \<Rightarrow> ('a \<Rightarrow> 'b result) \<Rightarrow> 'b result" where
  "bind_exn r f = (case r of Inl e \<Rightarrow> Inl e | Inr v \<Rightarrow> f v)"

text \<open>
  \<^verbatim>\<open>str.upper()\<close> on the ASCII identifiers used as configuration keys: the
  letters a to z move to A to Z, every other character stays.
\<close>

definition upper_char :: "char \<Rightarrow> char" where
  "upper_char c =
     (case map_of (zip ''abcdefghijklmnopqrstuvwxyz'' ''ABCDEFGHIJKLMNOPQRSTUVWXYZ'') c of
        Some u \<Rightarrow> u
      | None \<Rightarrow> c)"

definition upper :: "string \<Rightarrow> string" where
  "upper s = map upper_char s"

section \<open>FieldAccessor and FieldAggregator (legistar/base/field.py)\<close>

text \<open>
  A \<^verbatim>\<open>FieldAccessor\<close> is an interface; a concrete accessor is modelled by what
  its methods return: \<^verbatim>\<open>get_url()\<close> (the first url, or \<^verbatim>\<open>None\<close>),
  \<^verbatim>\<open>get_text()\<close> and \<^verbatim>\<open>is_blank()\<close>.
\<close>

record accessor =
  acc_url :: "string option"
  acc_text :: string
  acc_blank :: bool

text \<open>
  What the configuration methods read of an instance: the class's
  \<^verbatim>\<open>KEY_PREFIX\<close> (\<open>None\<close> for a class that does not override the property of the
  base class, which raises \<^verbatim>\<open>NotImplementedError\<close>) and the jurisdiction
  configuration \<^verbatim>\<open>self.cfg\<close>, a map from attribute names to values. A
  \<^verbatim>\<open>FieldAggregator\<close> adds the current record's \<^verbatim>\<open>self.field_data\<close> dictionary,
  whose values are accessors or \<^verbatim>\<open>None\<close>.
\<close>

record configured =
  KEY_PREFIX :: "string option"
  cfg :: "string \<rightharpoonup> pyval"

record aggregator = configured +
  field_data :: "pyval \<rightharpoonup> accessor option"

definition config_name :: "string \<Rightarrow> string \<Rightarrow> string" where
  "config_name prefix key = prefix @ ''_'' @ upper key"

definition get_config_value ::
  "('a configured_scheme) \<Rightarrow> string \<Rightarrow> pyval result" where
  "get_config_value self key =
     (case KEY_PREFIX self of
        None \<Rightarrow> Inl NotImplementedError
      | Some prefix \<Rightarrow>
          (let name = config_name prefix key in
           case cfg self name of
             None \<Rightarrow> Inl (ConfigurationMissing name)
           | Some v \<Rightarrow> Inr v))"

definition get_label_text ::
  "('a configured_scheme) \<Rightarrow> string \<Rightarrow> pyval result" where
  "get_label_text self key = get_config_value self (''TEXT_'' @ upper key)"

definition get_field_data ::
  "('a aggregator_scheme) \<Rightarrow> string \<Rightarrow> accessor option result" where
  "get_field_data self label_text =
     bind_exn (get_label_text self label_text) (\<lambda>key.
       case field_data self key of
         Some a \<Rightarrow> Inr a
       | None \<Rightarrow> Inl SkipItem)"

definition get_field_text ::
  "('a aggregator_scheme) \<Rightarrow> string \<Rightarrow> string option result" where
  "get_field_text self label_text =
     bind_exn (get_field_data self label_text) (\<lambda>fd.
       case fd of
         Some a \<Rightarrow> if acc_blank a then Inr None else Inr (Some (acc_text a))
       | None \<Rightarrow> Inr None)"

definition get_field_url ::
  "('a aggregator_scheme) \<Rightarrow> string \<Rightarrow> string option result" where
  "get_field_url self label_text =
     bind_exn (get_field_data self label_text) (\<lambda>fd.
       case fd of
         Some a \<Rightarrow>
           (case acc_url a of
              None \<Rightarrow> Inr None
            | Some u \<Rightarrow> if u = [] then Inr None else Inr (Some u))
       | None \<Rightarrow> Inr None)"

subsection \<open>Iteration over the declared field generators\<close>



text \<open>
  The keys declared with \<^verbatim>\<open>@make_item\<close> in legistar/bills.py, class by class, in
  the order of the source; a subclass of \<^verbatim>\<open>BillsFields\<close> inherits its units.
\<close>

definition BillsFields_keys :: "string list" where
  "BillsFields_keys = [''intro_date'', ''file_created'', ''sources'']"

definition BillsDetailView_keys :: "string list" where
  "BillsDetailView_keys = BillsFields_keys @
     [''agenda'', ''enactment_date'', ''final_action'', ''sponsors'', ''documents'',
      ''actions'']"

definition BillsDetailTableRow_keys :: "string list" where
  "BillsDetailTableRow_keys = [''date'', ''media'']"

definition BillsDetailAction_keys :: "string list" where
  "BillsDetailAction_keys = [''votes'', ''sources'']"

subsection \<open>BillsDetailTableRow: media (legistar/bills.py)\<close>

record media_link =
  link_url :: string
  media_type :: string

record media =
  media_name :: string
  links :: "media_link list"

text \<open>
  \<^verbatim>\<open>_get_media\<close>. The HTTP client is not among the sources: \<^verbatim>\<open>self.client.head\<close>
  is the parameter \<open>head\<close>, from a url to the response headers or a failure.
\<close>

definition get_media ::
  "(string \<Rightarrow> (string \<rightharpoonup> string) result) \<Rightarrow> ('a aggregator_scheme) \<Rightarrow> string
     \<Rightarrow> media result" where
  "get_media head self label =
     bind_exn (get_field_data self label) (\<lambda>data.
       case data of
         None \<Rightarrow> Inl AttributeError
       | Some a \<Rightarrow>
           (case acc_url a of
              None \<Rightarrow> Inl SkipItem
            | Some url \<Rightarrow>
                bind_exn (head url) (\<lambda>headers.
                  case headers ''content-type'' of
                    None \<Rightarrow> Inl (KeyError ''content-type'')
                  | Some mt \<Rightarrow>
                      Inr \<lparr>media_name = acc_text a,
                           links = [\<lparr>link_url = url, media_type = mt\<rparr>]\<rparr>)))"

fun gen_media_labels ::
  "(string \<Rightarrow> (string \<rightharpoonup> string) result) \<Rightarrow> ('a aggregator_scheme) \<Rightarrow> string list
     \<Rightarrow> media list result" where
  "gen_media_labels head self [] = Inr []"
| "gen_media_labels head self (label # labels) =
     (case get_media head self label of
        Inl e \<Rightarrow> if e = SkipItem then gen_media_labels head self labels else Inl e
      | Inr m \<Rightarrow> bind_exn (gen_media_labels head self labels) (\<lambda>rest. Inr (m # rest)))"

text \<open>
  Iterating a configuration value: a tuple gives its elements, a string its
  characters (each a string of length one), \<^verbatim>\<open>None\<close> is not iterable.
\<close>

fun py_iter :: "pyval \<Rightarrow> string list result" where
  "py_iter (PTuple xs) = Inr xs"
| "py_iter (PStr s) = Inr (map (\<lambda>c. [c]) s)"
| "py_iter PNone = Inl TypeError"

definition gen_media ::
  "(string \<Rightarrow> (string \<rightharpoonup> string) result) \<Rightarrow> ('a aggregator_scheme) \<Rightarrow> media list result" where
  "gen_media head self =
     bind_exn (get_config_value self ''pupa_media'') (\<lambda>v.
       bind_exn (py_iter v) (\<lambda>labels. gen_media_labels head self labels))"

section \<open>BillsSearchForm (legistar/bills.py)\<close>

text \<open>
  The fetched document \<^verbatim>\<open>self.doc\<close> is an lxml tree. The form reads it only
  through \<^verbatim>\<open>self.doc.xpath('//*[@name="..."]')\<close>, which ranges over all elements
  of the tree, so the document is the list of its elements in document order, each
  with its tag and its attributes.
\<close>

record element =
  tag :: string
  attrib :: "(string \<times> string) list"

definition dquote :: char where
  "dquote = CHR 0x22"

text \<open>
  lxml is a library, not part of the repository. Its \<^verbatim>\<open>xpath\<close> is modelled on the
  expressions of the form \<^verbatim>\<open>//*[@name="s"]\<close> with a string literal \<open>s\<close> (XPath has
  no escapes, so \<open>s\<close> holds no double quote): the elements whose \<^verbatim>\<open>name\<close>
  attribute is \<open>s\<close>. Every other expression is \<open>Unmodelled\<close>.
\<close>

definition name_query_prefix :: string where
  "name_query_prefix = ''//*[@name='' @ [dquote]"

definition name_query_suffix :: string where
  "name_query_suffix = [dquote] @ '']''"

definition parse_name_query :: "string \<Rightarrow> string option" where
  "parse_name_query expr =
     (let n = length name_query_prefix; rest = drop n expr; k = length rest - 2 in
      if take n expr = name_query_prefix \<and> 2 \<le> length rest
         \<and> drop k rest = name_query_suffix \<and> dquote \<notin> set (take k rest)
      then Some (take k rest) else None)"

definition xpath :: "element list \<Rightarrow> string \<Rightarrow> element list result" where
  "xpath d expr =
     (case parse_name_query expr of
        Some s \<Rightarrow> Inr (filter (\<lambda>el. map_of (attrib el) ''name'' = Some s) d)
      | None \<Rightarrow> Inl Unmodelled)"

text \<open>
  \<^verbatim>\<open>fmt % v\<close> for a format with a single \<^verbatim>\<open>%s\<close>: a string is inserted as it is,
  \<^verbatim>\<open>None\<close> as \<^verbatim>\<open>'None'\<close>; a tuple is the argument list, so it must hold exactly
  one string.
\<close>

fun format_s :: "string \<Rightarrow> pyval \<Rightarrow> string \<Rightarrow> string result" where
  "format_s pre (PStr s) post = Inr (pre @ s @ post)"
| "format_s pre PNone post = Inr (pre @ ''None'' @ post)"
| "format_s pre (PTuple [s]) post = Inr (pre @ s @ post)"
| "format_s pre (PTuple xs) post = Inl TypeError"

text \<open>
  Modelled from the spec: the base class \<^verbatim>\<open>Form\<close> (legistar/forms.py) is not
  among the sources. Its \<^verbatim>\<open>get_config_value\<close> is the lookup of
  \<^verbatim>\<open><KEY_PREFIX>_<key.upper()>\<close> in the jurisdiction configuration, the one
  \<^verbatim>\<open>FieldAggregator\<close> defines, so a form is a configured instance too. Beyond
  the configuration the methods read the session state of the HTTP client
  (\<^verbatim>\<open>self.client.state\<close>) and the current document. The decorator
  \<^verbatim>\<open>try_jxn_delegation\<close> is not among the sources either: the definitions
  below are the bodies of the decorated methods.
\<close>

record form = configured +
  client_state :: "string \<rightharpoonup> pyval"
  doc :: "element list"

type_synonym query = "string \<rightharpoonup> pyval"


definition or_config :: "('a configured_scheme) \<Rightarrow> pyval \<Rightarrow> string \<Rightarrow> pyval result" where
  "or_config self v key = (if truthy v then Inr v else get_config_value self key)"




definition get_query_advanced ::
  "('a form_scheme) \<Rightarrow> pyval \<Rightarrow> pyval \<Rightarrow> query \<Rightarrow> query result" where
  "get_query_advanced self time_period bodies kwargs =
     bind_exn (or_config self time_period ''time_period'') (\<lambda>time_period.
       let query = [''ctl00$ContentPlaceHolder1$btnSearch2'' \<mapsto> PStr ''Search Legislation'',
                    ''ctl00$ContentPlaceHolder1$lstMax'' \<mapsto> PStr ''All'',
                    ''ctl00$ContentPlaceHolder1$lstYearsAdvanced'' \<mapsto> time_period];
           query = query ++ kwargs
       in Inr (client_state self ++ query))"

definition default_search_is_simple :: "('a form_scheme) \<Rightarrow> bool result" where
  "default_search_is_simple self =
     bind_exn (get_config_value self ''advanced_time_period_el_name'') (\<lambda>advanced_id.
     bind_exn (format_s name_query_prefix advanced_id name_query_suffix) (\<lambda>expr.
     bind_exn (xpath (doc self) expr) (\<lambda>found.
       let advanced = (found \<noteq> []) in
       if advanced then Inr False else Inr True)))"

text \<open>
  \<^verbatim>\<open>self.submit\<close> belongs to \<^verbatim>\<open>Form\<close> and is a round trip to the server: it is the
  parameter \<open>submit\<close>, from the submitted query and the form to the form with the
  new document and client state, or a failure.
\<close>

definition switch_to_advanced_search ::
  "(query \<Rightarrow> ('a form_scheme) \<Rightarrow> ('a form_scheme) result) \<Rightarrow> ('a form_scheme)
     \<Rightarrow> ('a form_scheme) result" where
  "switch_to_advanced_search submit self =
     (let query = [''__EVENTTARGET'' \<mapsto> PStr ''ctl00$ContentPlaceHolder1$btnSwitch'']
      in submit query self)"

text \<open>
  A call \<^verbatim>\<open>get_query_advanced(**kwargs)\<close> binds the keywords \<^verbatim>\<open>time_period\<close> and
  \<^verbatim>\<open>bodies\<close> to the named parameters (default \<^verbatim>\<open>None\<close>); the callee's own
  \<^verbatim>\<open>**kwargs\<close> is what remains.
\<close>

definition keyword :: "query \<Rightarrow> string \<Rightarrow> pyval" where
  "keyword kwargs name = (case kwargs name of Some v \<Rightarrow> v | None \<Rightarrow> PNone)"

definition other_keywords :: "query \<Rightarrow> query" where
  "other_keywords kwargs = kwargs(''time_period'' := None, ''bodies'' := None)"

text \<open>
  \<^verbatim>\<open>get_query(*args, **kwargs)\<close> drops its positional arguments. It returns the
  query and the form as the possible mode switch left it.
\<close>

definition get_query ::
  "(query \<Rightarrow> ('a form_scheme) \<Rightarrow> ('a form_scheme) result) \<Rightarrow> ('a form_scheme) \<Rightarrow> query
     \<Rightarrow> (query \<times> ('a form_scheme)) result" where
  "get_query submit self kwargs =
     bind_exn (default_search_is_simple self) (\<lambda>simple.
     bind_exn (if simple then switch_to_advanced_search submit self else Inr self) (\<lambda>self.
     bind_exn (get_query_advanced self (keyword kwargs ''time_period'')
                 (keyword kwargs ''bodies'') (other_keywords kwargs)) (\<lambda>query.
       Inr (query, self))))"


section \<open>Dates: DateGetter (legistar/bills.py) and stringify_date (legistar/old/people.py)\<close>

record datetime =
  year :: nat
  month :: nat
  day :: nat
  hour :: nat
  minute :: nat
  second :: nat
  tzinfo :: "string option"

text \<open>
  \<^verbatim>\<open>datetime.strptime\<close> is the Python library's. It is modelled on the formats
  made of the directives \<^verbatim>\<open>%Y\<close>, \<^verbatim>\<open>%m\<close>, \<^verbatim>\<open>%d\<close>, \<^verbatim>\<open>%%\<close> and of characters other
  than white space; anything else in a format is \<open>Unmodelled\<close>. The library turns
  the format into a regular expression, matched from the start of the text,
  ignoring case, alternatives tried in order: \<^verbatim>\<open>%m\<close> is \<^verbatim>\<open>1[0-2]|0[1-9]|[1-9]\<close>,
  \<^verbatim>\<open>%d\<close> is \<^verbatim>\<open>3[0-1]|[1-2]\d|0[1-9]|[1-9]| [1-9]\<close>, \<^verbatim>\<open>%Y\<close> is \<^verbatim>\<open>\d\d\d\d\<close>.
\<close>

datatype fmt_item = Lit char | DirY | Dirm | Dird

definition is_space :: "char \<Rightarrow> bool" where
  "is_space c = (c \<in> set [CHR '' '', CHR 0x09, CHR 0x0A, CHR 0x0B, CHR 0x0C, CHR 0x0D])"

fun parse_format :: "string \<Rightarrow> fmt_item list result" where
  "parse_format [] = Inr []"
| "parse_format [c] =
     (if c = CHR ''%'' then Inl ValueError
      else if is_space c then Inl Unmodelled
      else Inr [Lit c])"
| "parse_format (c # d # cs) =
     (if c = CHR ''%'' then
        (if d = CHR ''Y'' then bind_exn (parse_format cs) (\<lambda>r. Inr (DirY # r))
         else if d = CHR ''m'' then bind_exn (parse_format cs) (\<lambda>r. Inr (Dirm # r))
         else if d = CHR ''d'' then bind_exn (parse_format cs) (\<lambda>r. Inr (Dird # r))
         else if d = CHR ''%'' then bind_exn (parse_format cs) (\<lambda>r. Inr (Lit d # r))
         else Inl Unmodelled)
      else if is_space c then Inl Unmodelled
      else bind_exn (parse_format (d # cs)) (\<lambda>r. Inr (Lit c # r)))"

definition digit_val :: "char \<Rightarrow> nat option" where
  "digit_val c = map_of (zip ''0123456789'' [0, 1, 2, 3, 4, 5, 6, 7, 8, 9]) c"

text \<open>The alternatives of a directive at the head of the text: value and rest, in order.\<close>

fun one_digit :: "string \<Rightarrow> (nat \<times> string) option" where
  "one_digit [] = None"
| "one_digit (a # rest) = map_option (\<lambda>x. (x, rest)) (digit_val a)"

fun two_digits :: "string \<Rightarrow> (nat \<times> nat \<times> string) option" where
  "two_digits (a # b # rest) =
     (case (digit_val a, digit_val b) of
        (Some x, Some y) \<Rightarrow> Some (x, y, rest)
      | _ \<Rightarrow> None)"
| "two_digits s = None"

definition alts_m :: "string \<Rightarrow> (nat \<times> string) list" where
  "alts_m s =
     (case two_digits s of
        Some (x, y, rest) \<Rightarrow>
          (if x = 1 \<and> y \<le> 2 then [(10 + y, rest)] else [])
          @ (if x = 0 \<and> 1 \<le> y then [(y, rest)] else [])
      | None \<Rightarrow> [])
     @ (case one_digit s of
          Some (x, rest) \<Rightarrow> if 1 \<le> x then [(x, rest)] else []
        | None \<Rightarrow> [])"

definition alts_d :: "string \<Rightarrow> (nat \<times> string) list" where
  "alts_d s =
     (case two_digits s of
        Some (x, y, rest) \<Rightarrow>
          (if x = 3 \<and> y \<le> 1 then [(30 + y, rest)] else [])
          @ (if x = 1 \<or> x = 2 then [(10 * x + y, rest)] else [])
          @ (if x = 0 \<and> 1 \<le> y then [(y, rest)] else [])
      | None \<Rightarrow> [])
     @ (case one_digit s of
          Some (x, rest) \<Rightarrow> if 1 \<le> x then [(x, rest)] else []
        | None \<Rightarrow> [])
     @ (case s of
          a # rest \<Rightarrow>
            (if a = CHR '' '' then
               (case one_digit rest of
                  Some (x, rest') \<Rightarrow> if 1 \<le> x then [(x, rest')] else []
                | None \<Rightarrow> [])
             else [])
        | [] \<Rightarrow> [])"

definition alts_Y :: "string \<Rightarrow> (nat \<times> string) list" where
  "alts_Y s =
     (case two_digits s of
        Some (a, b, rest) \<Rightarrow>
          (case two_digits rest of
             Some (c, d, rest') \<Rightarrow> [(1000 * a + 100 * b + 10 * c + d, rest')]
           | None \<Rightarrow> [])
      | None \<Rightarrow> [])"

record date_fields =
  f_year :: "nat option"
  f_month :: "nat option"
  f_day :: "nat option"

text \<open>All matches of the format against the text, in the order the regular
  expression engine finds them; each is the fields read and the unconverted rest.\<close>

fun match_items :: "fmt_item list \<Rightarrow> string \<Rightarrow> date_fields \<Rightarrow> (date_fields \<times> string) list" where
  "match_items [] s f = [(f, s)]"
| "match_items (Lit c # items) s f =
     (case s of
        [] \<Rightarrow> []
      | x # xs \<Rightarrow> if upper_char x = upper_char c then match_items items xs f else [])"
| "match_items (DirY # items) s f =
     concat (map (\<lambda>(v, rest). match_items items rest (f\<lparr>f_year := Some v\<rparr>)) (alts_Y s))"
| "match_items (Dirm # items) s f =
     concat (map (\<lambda>(v, rest). match_items items rest (f\<lparr>f_month := Some v\<rparr>)) (alts_m s))"
| "match_items (Dird # items) s f =
     concat (map (\<lambda>(v, rest). match_items items rest (f\<lparr>f_day := Some v\<rparr>)) (alts_d s))"

definition leap_year :: "nat \<Rightarrow> bool" where
  "leap_year y = (y mod 4 = 0 \<and> (y mod 100 \<noteq> 0 \<or> y mod 400 = 0))"

definition days_in_month :: "nat \<Rightarrow> nat \<Rightarrow> nat" where
  "days_in_month y m =
     (if m = 2 then (if leap_year y then 29 else 28)
      else if m \<in> set [4, 6, 9, 11] then 30 else 31)"

text \<open>A directive used twice names a group of the regular expression twice:
  \<^verbatim>\<open>re.error\<close>.\<close>

definition strptime :: "string \<Rightarrow> string \<Rightarrow> datetime result" where
  "strptime text fmt =
     bind_exn (parse_format fmt) (\<lambda>items.
       if \<not> distinct (filter (\<lambda>i. case i of Lit c \<Rightarrow> False | _ \<Rightarrow> True) items)
       then Inl ReError
       else
         (case match_items items text \<lparr>f_year = None, f_month = None, f_day = None\<rparr> of
            [] \<Rightarrow> Inl ValueError
          | (f, rest) # others \<Rightarrow>
              if rest \<noteq> [] then Inl ValueError
              else
                (let y = (case f_year f of Some v \<Rightarrow> v | None \<Rightarrow> 1900);
                     m = (case f_month f of Some v \<Rightarrow> v | None \<Rightarrow> 1);
                     d = (case f_day f of Some v \<Rightarrow> v | None \<Rightarrow> 1)
                 in if y < 1 \<or> days_in_month y m < d then Inl ValueError
                    else Inr \<lparr>year = y, month = m, day = d, hour = 0, minute = 0,
                              second = 0, tzinfo = None\<rparr>)))"

text \<open>
  \<^verbatim>\<open>DateGetter._get_date\<close>. \<^verbatim>\<open>self.cfg.datetime_add_tz\<close> belongs to the
  jurisdiction configuration, which is not among the sources: it is the parameter
  \<open>datetime_add_tz\<close>. The format must be a string.
\<close>

definition DateGetter_get_date ::
  "(datetime \<Rightarrow> datetime) \<Rightarrow> ('a aggregator_scheme) \<Rightarrow> string \<Rightarrow> datetime option result" where
  "DateGetter_get_date datetime_add_tz self label_text =
     bind_exn (get_config_value self ''datetime_format'') (\<lambda>fmt.
     bind_exn (get_field_text self label_text) (\<lambda>text.
       case text of
         None \<Rightarrow> Inr None
       | Some t \<Rightarrow>
           (case fmt of
              PStr f \<Rightarrow>
                bind_exn (strptime t f) (\<lambda>dt.
                  let dt = datetime_add_tz dt in Inr (Some dt))
            | _ \<Rightarrow> Inl TypeError)))"

text \<open>
  \<^verbatim>\<open>strftime('%Y-%m-%d')\<close>: the year in four digits, month and day in two, as the
  Python documentation gives them.
\<close>

definition digit_char :: "nat \<Rightarrow> char" where
  "digit_char n = ''0123456789'' ! (n mod 10)"

definition strftime_Y_m_d :: "datetime \<Rightarrow> string" where
  "strftime_Y_m_d dt =
     [digit_char (year dt div 1000), digit_char (year dt div 100),
      digit_char (year dt div 10), digit_char (year dt)]
     @ ''-'' @ [digit_char (month dt div 10), digit_char (month dt)]
     @ ''-'' @ [digit_char (day dt div 10), digit_char (day dt)]"

text \<open>\<^verbatim>\<open>MembershipAdapter.stringify_date\<close>; a datetime object is always true.\<close>

definition stringify_date :: "datetime option \<Rightarrow> string result" where
  "stringify_date dt =
     (case dt of
        None \<Rightarrow> Inl SkipItem
      | Some d \<Rightarrow> Inr (strftime_Y_m_d d))"

section \<open>MembershipConverter.get_org (legistar/old/people.py)\<close>

record source =
  src_url :: string
  src_note :: string

text \<open>
  \<^verbatim>\<open>pupa.scrape.Organization\<close> is a library class. An organization is modelled by
  the identifier the library gives each new object (\<^verbatim>\<open>_id\<close>), its name, its
  classification and its list of sources, empty at creation; \<^verbatim>\<open>add_source\<close>
  appends to that list.
\<close>

record organization =
  org_id :: nat
  org_name :: string
  classification :: string
  org_sources :: "source list"

definition add_source :: "source \<Rightarrow> organization \<Rightarrow> organization" where
  "add_source s org = org\<lparr>org_sources := org_sources org @ [s]\<rparr>"

text \<open>
  The converter reads the person's sources and the configuration's
  \<^verbatim>\<open>get_org_classification\<close>, which is not among the sources and is a parameter
  here. The state of a conversion run is the organization cache
  \<^verbatim>\<open>self.config.org_cache\<close>, which holds organizations (never \<^verbatim>\<open>None\<close>), and the
  supply of identifiers for new objects.
\<close>

record converter =
  person_sources :: "source list"
  get_org_classification :: "string \<Rightarrow> string"

record run_state =
  org_cache :: "string \<rightharpoonup> organization"
  next_id :: nat

text \<open>\<^verbatim>\<open>sub in s\<close> on strings.\<close>

fun contains :: "string \<Rightarrow> string \<Rightarrow> bool" where
  "contains [] sub = (sub = [])"
| "contains (c # cs) sub = (take (length sub) (c # cs) = sub \<or> contains cs sub)"

text \<open>
  The three \<^verbatim>\<open>return\<close> statements of \<^verbatim>\<open>get_org\<close>, by their line: the cache hit,
  the return after the new organization is cached, and the last line of the method.
\<close>

datatype get_org_return = ReturnCacheHit | ReturnCreated | ReturnLast

text \<open>
  The loop before the last \<^verbatim>\<open>return\<close>: \<^verbatim>\<open>org.add_source(**source)\<close> for each source
  whose note contains \<^verbatim>\<open>'detail'\<close>, on a variable \<^verbatim>\<open>org\<close> that may be \<^verbatim>\<open>None\<close>.
\<close>

fun add_detail_sources :: "source list \<Rightarrow> organization option \<Rightarrow> organization option result" where
  "add_detail_sources [] org = Inr org"
| "add_detail_sources (s # ss) org =
     (if contains (src_note s) ''detail'' then
        (case org of
           None \<Rightarrow> Inl AttributeError
         | Some g \<Rightarrow> add_detail_sources ss (Some (add_source s g)))
      else add_detail_sources ss org)"

text \<open>
  \<^verbatim>\<open>get_org\<close>, with the \<^verbatim>\<open>return\<close> statement that ended the call. The local
  variable \<^verbatim>\<open>org\<close> is an organization or \<^verbatim>\<open>None\<close>. Storing the new organization
  in the cache stores the object itself, so sources added to it afterwards show in
  the cache too.
\<close>

definition get_org_traced ::
  "converter \<Rightarrow> string \<Rightarrow> run_state
     \<Rightarrow> (get_org_return \<times> (bool \<times> organization option) \<times> run_state) result" where
  "get_org_traced self name st =
     (let created = False;
          orgs = org_cache st;
          org = orgs name
      in if org \<noteq> None then Inr (ReturnCacheHit, (created, org), st)
         else
           (let cls = get_org_classification self name;
                new = \<lparr>org_id = next_id st, org_name = name, classification = cls,
                       org_sources = []\<rparr>;
                new = fold add_source (person_sources self) new;
                org = Some new;
                created = True;
                st = st\<lparr>org_cache := orgs(name \<mapsto> new), next_id := Suc (next_id st)\<rparr>
            in if org \<noteq> None then Inr (ReturnCreated, (created, org), st)
               else
                 bind_exn (add_detail_sources (person_sources self) org) (\<lambda>org.
                   Inr (ReturnLast, (created, org),
                        (case org of
                           None \<Rightarrow> st
                         | Some g \<Rightarrow> st\<lparr>org_cache := (org_cache st)(name \<mapsto> g)\<rparr>)))))"

definition get_org ::
  "converter \<Rightarrow> string \<Rightarrow> run_state \<Rightarrow> ((bool \<times> organization option) \<times> run_state) result" where
  "get_org self name st =
     bind_exn (get_org_traced self name st) (\<lambda>(ret, result, st). Inr (result, st))"

text \<open>
  A conversion run calls \<^verbatim>\<open>get_org\<close> once for each membership it converts
  (\<^verbatim>\<open>create_memberships\<close>, through \<^verbatim>\<open>create_membership\<close>), on one cache: the calls
  of a run, by the organization names asked for, with the result of each.
\<close>

fun get_orgs ::
  "converter \<Rightarrow> string list \<Rightarrow> run_state
     \<Rightarrow> ((bool \<times> organization option) list \<times> run_state) result" where
  "get_orgs self [] st = Inr ([], st)"
| "get_orgs self (name # names) st =
     bind_exn (get_org self name st) (\<lambda>(r, st).
       bind_exn (get_orgs self names st) (\<lambda>(rs, st). Inr (r # rs, st)))"

section \<open>Example instances\<close>

text \<open>
  A row of a bill's detail table in a jurisdiction that configures the labels of
  the topic and the date and the date format; the document shows the date only.
\<close>

definition example_row :: aggregator where
  "example_row =
     \<lparr>KEY_PREFIX = Some ''BILL_DETAIL'',
      cfg = [''BILL_DETAIL_TEXT_TOPIC'' \<mapsto> PStr ''Topic:'',
             ''BILL_DETAIL_TEXT_DATE'' \<mapsto> PStr ''Date:'',
             ''BILL_DETAIL_DATETIME_FORMAT'' \<mapsto> PStr ''%m/%d/%Y''],
      field_data = [PStr ''Date:'' \<mapsto>
        Some \<lparr>acc_url = None, acc_text = ''03/14/2019'', acc_blank = False\<rparr>]\<rparr>"


text \<open>
  A search form of a jurisdiction with every parameter of the search configured.
  The first document is the advanced search page (it holds the control named by
  \<^verbatim>\<open>advanced_time_period_el_name\<close>) and the session state holds the hidden state
  of the max-results selector; the second is the simple search page.
\<close>

definition search_cfg :: "string \<rightharpoonup> pyval" where
  "search_cfg =
     [''BILL_SEARCH_TIME_PERIOD'' \<mapsto> PStr ''This Year'',
      ''BILL_SEARCH_TYPES'' \<mapsto> PStr ''All Types'',
      ''BILL_SEARCH_TYPES_EL_NAME'' \<mapsto> PStr ''ctl00$ContentPlaceHolder1$lstTypeBasic'',
      ''BILL_SEARCH_TIME_PERIOD_EL_NAME'' \<mapsto> PStr ''ctl00$ContentPlaceHolder1$lstYears'',
      ''BILL_SEARCH_BUTTON_EL_NAME'' \<mapsto> PStr ''ctl00$ContentPlaceHolder1$btnSearch'',
      ''BILL_SEARCH_BUTTON'' \<mapsto> PStr ''Search Legislation'',
      ''BILL_SEARCH_ID_EL_NAME'' \<mapsto> PStr ''ctl00$ContentPlaceHolder1$chkID'',
      ''BILL_SEARCH_ID'' \<mapsto> PStr ''on'',
      ''BILL_SEARCH_TEXT_EL_NAME'' \<mapsto> PStr ''ctl00$ContentPlaceHolder1$chkText'',
      ''BILL_SEARCH_TEXT'' \<mapsto> PStr ''on'',
      ''BILL_SEARCH_ADVANCED_TIME_PERIOD_EL_NAME'' \<mapsto>
        PStr ''ctl00$ContentPlaceHolder1$lstYearsAdvanced'']"

definition advanced_form :: form where
  "advanced_form =
     \<lparr>KEY_PREFIX = Some ''BILL_SEARCH'',
      cfg = search_cfg,
      client_state = [''__VIEWSTATE'' \<mapsto> PStr ''dDwtMTA4'',
                      ''ctl00_ContentPlaceHolder1_lstMax_ClientState'' \<mapsto> PStr ''{}''],
      doc = [\<lparr>tag = ''form'', attrib = [(''id'', ''aspnetForm'')]\<rparr>,
             \<lparr>tag = ''input'',
              attrib = [(''name'', ''ctl00$ContentPlaceHolder1$lstYearsAdvanced''),
                        (''type'', ''text'')]\<rparr>]\<rparr>"

definition simple_form :: form where
  "simple_form =
     \<lparr>KEY_PREFIX = Some ''BILL_SEARCH'',
      cfg = search_cfg,
      client_state = [''__VIEWSTATE'' \<mapsto> PStr ''c2ltcGxl''],
      doc = [\<lparr>tag = ''form'', attrib = [(''id'', ''aspnetForm'')]\<rparr>,
             \<lparr>tag = ''input'',
              attrib = [(''name'', ''ctl00$ContentPlaceHolder1$lstYears''),
                        (''type'', ''text'')]\<rparr>]\<rparr>"



text \<open>A configuration whose \<^verbatim>\<open>datetime_add_tz\<close> attaches the jurisdiction's time zone.\<close>

definition localize :: "datetime \<Rightarrow> datetime" where
  "localize dt = dt\<lparr>tzinfo := Some ''US/Pacific''\<rparr>"

text \<open>
  A conversion run: a person with two sources, one of them the person's detail
  page, and a cache that already holds the legislature.
\<close>

definition example_converter :: converter where
  "example_converter =
     \<lparr>person_sources =
        [\<lparr>src_url = ''https://city.example/person/1'', src_note = ''person detail''\<rparr>,
         \<lparr>src_url = ''https://city.example/people'', src_note = ''people search''\<rparr>],
      get_org_classification = (\<lambda>name. ''committee'')\<rparr>"

definition city_council :: organization where
  "city_council =
     \<lparr>org_id = 0, org_name = ''City Council'', classification = ''legislature'',
      org_sources = []\<rparr>"

definition finance_committee :: organization where
  "finance_committee =
     \<lparr>org_id = 1, org_name = ''Finance Committee'', classification = ''committee'',
      org_sources =
        [\<lparr>src_url = ''https://city.example/person/1'', src_note = ''person detail''\<rparr>,
         \<lparr>src_url = ''https://city.example/people'', src_note = ''people search''\<rparr>]\<rparr>"

definition example_run_state :: run_state where
  "example_run_state = \<lparr>org_cache = [''City Council'' \<mapsto> city_council], next_id = 1\<rparr>"

section \<open>Helper lemmas\<close>


lemma bind_exn_simps [simp]:
  "bind_exn (Inl e) f = Inl e" "bind_exn (Inr v) f = f v"
  by (simp_all add: bind_exn_def)

section \<open>Configuration and field lookup\<close>



text \<open>
  C2. Where the label text of a field is configured, \<^verbatim>\<open>get_field_data(label)\<close>
  returns what the record's field-data mapping stores under that label text when
  the label text is one of its keys, and raises \<open>SkipItem\<close>, no other exception,
  when it is not.
\<close>

theorem get_field_data_lookup:
  assumes "get_label_text self label = Inr key"
  shows "(field_data self key = Some a \<longrightarrow> get_field_data self label = Inr a)
       \<and> (field_data self key = None \<longrightarrow> get_field_data self label = Inl SkipItem)"
  using assms by (simp add: get_field_data_def)

theorem get_field_data_lookup_witness:
  "get_label_text example_row ''date'' = Inr (PStr ''Date:'')
   \<and> field_data example_row (PStr ''Date:'')
       = Some (Some \<lparr>acc_url = None, acc_text = ''03/14/2019'', acc_blank = False\<rparr>)
   \<and> get_field_data example_row ''date''
       = Inr (Some \<lparr>acc_url = None, acc_text = ''03/14/2019'', acc_blank = False\<rparr>)
   \<and> get_label_text example_row ''topic'' = Inr (PStr ''Topic:'')
   \<and> field_data example_row (PStr ''Topic:'') = None
   \<and> get_field_data example_row ''topic'' = Inl SkipItem"
  using get_field_data_lookup [of example_row "''date''" "PStr ''Date:''"
      "Some \<lparr>acc_url = None, acc_text = ''03/14/2019'', acc_blank = False\<rparr>"]
    get_field_data_lookup [of example_row "''topic''" "PStr ''Topic:''"]
  by (simp add: example_row_def get_label_text_def get_config_value_def config_name_def
        upper_def upper_char_def)

section \<open>Iteration over the declared units\<close>





text \<open>The classes of legistar/bills.py declare each key once.\<close>

lemma bills_keys_distinct:
  "distinct BillsFields_keys" "distinct BillsDetailView_keys"
  "distinct BillsDetailTableRow_keys" "distinct BillsDetailAction_keys"
  by (simp_all add: BillsFields_keys_def BillsDetailView_keys_def
        BillsDetailTableRow_keys_def BillsDetailAction_keys_def)



text \<open>
  The \<^verbatim>\<open>media\<close> unit of \<^verbatim>\<open>BillsDetailTableRow\<close> catches \<open>SkipItem\<close> label by
  label, so the unit itself never raises it: a label without data or without a
  url is left out of the list, and the key \<^verbatim>\<open>media\<close> is still emitted.
\<close>

lemma gen_media_labels_no_skip: "gen_media_labels head self labels \<noteq> Inl SkipItem"
  by (induction labels) (auto simp: bind_exn_def split: sum.splits)

lemma py_iter_no_skip: "py_iter v \<noteq> Inl SkipItem"
  by (cases v) simp_all

lemma get_config_value_no_skip: "get_config_value self key \<noteq> Inl SkipItem"
  by (simp add: get_config_value_def Let_def split: option.splits)

lemma gen_media_no_skip: "gen_media head self \<noteq> Inl SkipItem"
  using get_config_value_no_skip [of self "''pupa_media''"]
  by (auto simp: gen_media_def bind_exn_def gen_media_labels_no_skip py_iter_no_skip
        split: sum.splits)

section \<open>The search form\<close>


lemma name_query_suffix_length: "length name_query_suffix = 2"
  by (simp add: name_query_suffix_def)

lemma parse_name_query_built:
  assumes "dquote \<notin> set s"
  shows "parse_name_query (name_query_prefix @ s @ name_query_suffix) = Some s"
  using assms by (simp add: parse_name_query_def Let_def name_query_suffix_length)

lemma xpath_name_query:
  assumes "dquote \<notin> set s"
  shows "xpath d (name_query_prefix @ s @ name_query_suffix)
       = Inr (filter (\<lambda>el. map_of (attrib el) ''name'' = Some s) d)"
  using assms by (simp add: xpath_def parse_name_query_built)

text \<open>
  C6. Where the configured advanced-only control name is a string (without a
  double quote, which an XPath string literal cannot hold),
  \<^verbatim>\<open>default_search_is_simple()\<close> returns false exactly when the document has an
  element whose \<^verbatim>\<open>name\<close> attribute is that control name, and true when it has
  none.
\<close>

theorem default_search_is_simple_marker:
  assumes "get_config_value self ''advanced_time_period_el_name'' = Inr (PStr name)"
    and "dquote \<notin> set name"
  shows "default_search_is_simple self
       = Inr (\<not> (\<exists>el \<in> set (doc self). map_of (attrib el) ''name'' = Some name))"
  using assms
  by (simp add: default_search_is_simple_def xpath_name_query filter_empty_conv)

theorem default_search_is_simple_marker_witness:
  "default_search_is_simple advanced_form = Inr False
   \<and> default_search_is_simple simple_form = Inr True"
proof -
  have a: "get_config_value advanced_form ''advanced_time_period_el_name''
             = Inr (PStr ''ctl00$ContentPlaceHolder1$lstYearsAdvanced'')"
    by (simp add: advanced_form_def search_cfg_def get_config_value_def config_name_def
          upper_def upper_char_def)
  have s: "get_config_value simple_form ''advanced_time_period_el_name''
             = Inr (PStr ''ctl00$ContentPlaceHolder1$lstYearsAdvanced'')"
    by (simp add: simple_form_def search_cfg_def get_config_value_def config_name_def
          upper_def upper_char_def)
  have q: "dquote \<notin> set ''ctl00$ContentPlaceHolder1$lstYearsAdvanced''"
    by (simp add: dquote_def)
  show ?thesis
    using default_search_is_simple_marker [OF a q] default_search_is_simple_marker [OF s q]
    by (simp add: advanced_form_def simple_form_def)
qed




lemma other_keywords_bodies:
  "other_keywords (kwargs(''bodies'' := b)) = other_keywords kwargs"
  by (simp add: other_keywords_def fun_eq_iff)

lemma keyword_time_period_bodies:
  "keyword (kwargs(''bodies'' := b)) ''time_period'' = keyword kwargs ''time_period''"
  by (simp add: keyword_def)

text \<open>
  C9. The result of \<^verbatim>\<open>get_query_advanced\<close> does not depend on its \<^verbatim>\<open>bodies\<close>
  argument, and neither does the result of \<^verbatim>\<open>get_query\<close>, which passes its
  keywords on to it: two calls that differ only in the value given for
  \<^verbatim>\<open>bodies\<close>, or in whether one is given, return the same.
\<close>

theorem bodies_ignored:
  "get_query_advanced self time_period b1 kwargs = get_query_advanced self time_period b2 kwargs
   \<and> get_query submit self (kwargs(''bodies'' \<mapsto> b1))
       = get_query submit self (kwargs(''bodies'' \<mapsto> b2))
   \<and> get_query submit self (kwargs(''bodies'' \<mapsto> b1))
       = get_query submit self (kwargs(''bodies'' := None))"
proof -
  have adv: "get_query_advanced self time_period b1 kwargs
           = get_query_advanced self time_period b2 kwargs"
    by (simp add: get_query_advanced_def)
  have q: "get_query submit self (kwargs(''bodies'' := b))
         = get_query submit self (kwargs(''bodies'' := None))" for b
    by (simp add: get_query_def get_query_advanced_def other_keywords_bodies
          keyword_time_period_bodies)
  from adv q [of "Some b1"] q [of "Some b2"] show ?thesis by simp
qed





section \<open>Dates\<close>

lemma strptime_pi_day:
  "strptime ''03/14/2019'' ''%m/%d/%Y''
     = Inr \<lparr>year = 2019, month = 3, day = 14, hour = 0, minute = 0, second = 0, tzinfo = None\<rparr>"
  by (simp add: strptime_def is_space_def alts_m_def alts_d_def alts_Y_def digit_val_def
        upper_char_def days_in_month_def)

lemma strftime_pi_day:
  "year dt = 2019 \<Longrightarrow> month dt = 3 \<Longrightarrow> day dt = 14 \<Longrightarrow> strftime_Y_m_d dt = ''2019-03-14''"
  by (simp add: strftime_Y_m_d_def digit_char_def)

lemma localize_keeps_date:
  "\<forall>dt. year (localize dt) = year dt \<and> month (localize dt) = month dt
            \<and> day (localize dt) = day dt"
  by (simp add: localize_def)

text \<open>
  C7. With the date format \<^verbatim>\<open>%m/%d/%Y\<close> configured and the field text
  \<^verbatim>\<open>03/14/2019\<close>, and a \<^verbatim>\<open>datetime_add_tz\<close> that leaves the calendar date as
  it is, \<^verbatim>\<open>_get_date\<close> returns a datetime whose date is 2019-03-14, and
  \<^verbatim>\<open>stringify_date\<close> turns it into \<^verbatim>\<open>2019-03-14\<close>.
\<close>

theorem date_round_trip:
  assumes "get_config_value self ''datetime_format'' = Inr (PStr ''%m/%d/%Y'')"
    and "get_field_text self label = Inr (Some ''03/14/2019'')"
    and "\<forall>dt. year (datetime_add_tz dt) = year dt \<and> month (datetime_add_tz dt) = month dt
            \<and> day (datetime_add_tz dt) = day dt"
  shows "\<exists>dt. DateGetter_get_date datetime_add_tz self label = Inr (Some dt)
       \<and> (year dt, month dt, day dt) = (2019, 3, 14)
       \<and> stringify_date (Some dt) = Inr ''2019-03-14''"
  using assms
  by (simp add: DateGetter_get_date_def strptime_pi_day stringify_date_def strftime_pi_day)

theorem date_round_trip_witness:
  "get_config_value example_row ''datetime_format'' = Inr (PStr ''%m/%d/%Y'')
   \<and> get_field_text example_row ''date'' = Inr (Some ''03/14/2019'')
   \<and> DateGetter_get_date localize example_row ''date''
       = Inr (Some \<lparr>year = 2019, month = 3, day = 14, hour = 0, minute = 0, second = 0,
                     tzinfo = Some ''US/Pacific''\<rparr>)
   \<and> stringify_date (Some \<lparr>year = 2019, month = 3, day = 14, hour = 0, minute = 0,
                            second = 0, tzinfo = Some ''US/Pacific''\<rparr>) = Inr ''2019-03-14''"
proof -
  have f: "get_config_value example_row ''datetime_format'' = Inr (PStr ''%m/%d/%Y'')"
    by (simp add: example_row_def get_config_value_def config_name_def upper_def upper_char_def)
  have t: "get_field_text example_row ''date'' = Inr (Some ''03/14/2019'')"
    by (simp add: example_row_def get_field_text_def get_field_data_def get_label_text_def
          get_config_value_def config_name_def upper_def upper_char_def)
  from date_round_trip [OF f t localize_keeps_date] f t show ?thesis
    by (auto simp: DateGetter_get_date_def strptime_pi_day localize_def stringify_date_def
          strftime_pi_day)
qed

section \<open>The organization cache\<close>

lemma fold_add_source:
  "org_sources (fold add_source ss org) = org_sources org @ ss"
  "org_name (fold add_source ss org) = org_name org"
  "org_id (fold add_source ss org) = org_id org"
  by (induction ss arbitrary: org) (simp_all add: add_source_def)

lemma get_org_traced_hit:
  "org_cache st name = Some g
   \<Longrightarrow> get_org_traced self name st = Inr (ReturnCacheHit, (False, Some g), st)"
  by (simp add: get_org_traced_def)

lemma get_org_traced_miss:
  assumes "org_cache st name = None"
  shows "\<exists>g. get_org_traced self name st
           = Inr (ReturnCreated, (True, Some g),
                  st\<lparr>org_cache := (org_cache st)(name \<mapsto> g), next_id := Suc (next_id st)\<rparr>)
         \<and> org_name g = name \<and> org_sources g = person_sources self
         \<and> org_id g = next_id st"
  using assms by (simp add: get_org_traced_def Let_def fold_add_source)

text \<open>
  C10. A call of \<^verbatim>\<open>get_org\<close> with a name that is not in the cache ends at the
  \<^verbatim>\<open>return\<close> that follows the caching of the new organization, whose sources
  are then exactly the person's sources, each once; and no call, hit or miss,
  ends at the last \<^verbatim>\<open>return\<close> of the method, so the loop before it, which adds
  the sources whose note contains \<^verbatim>\<open>detail\<close>, never runs.
\<close>

theorem get_org_new_returns_at_once:
  "(org_cache st name = None \<longrightarrow>
      (\<exists>g st'. get_org_traced self name st = Inr (ReturnCreated, (True, Some g), st')
         \<and> org_sources g = person_sources self \<and> org_cache st' name = Some g))
   \<and> (\<exists>ret result st'. get_org_traced self name st = Inr (ret, result, st')
         \<and> ret \<noteq> ReturnLast)"
proof (cases "org_cache st name")
  case None
  from get_org_traced_miss [OF None, of self] show ?thesis by auto
next
  case (Some g)
  from get_org_traced_hit [OF Some, of self] Some show ?thesis by auto
qed

lemmas org_eval_defs = get_org_traced_def add_source_def example_converter_def
  example_run_state_def city_council_def finance_committee_def Let_def

theorem get_org_new_returns_at_once_witness:
  "org_cache example_run_state ''Finance Committee'' = None
   \<and> \<not> isl (get_org_traced example_converter ''Finance Committee'' example_run_state)
   \<and> fst (projr (get_org_traced example_converter ''Finance Committee'' example_run_state))
       = ReturnCreated
   \<and> fst (snd (projr (get_org_traced example_converter ''Finance Committee'' example_run_state)))
       = (True, Some finance_committee)
   \<and> org_sources finance_committee = person_sources example_converter"
  using get_org_new_returns_at_once [of example_run_state "''Finance Committee''" example_converter]
  by (simp add: org_eval_defs)

lemma get_org_hit:
  "org_cache st name = Some g \<Longrightarrow> get_org self name st = Inr ((False, Some g), st)"
  by (simp add: get_org_def get_org_traced_hit)

lemma get_org_miss:
  assumes "org_cache st name = None"
  shows "\<exists>g. get_org self name st
           = Inr ((True, Some g),
                  st\<lparr>org_cache := (org_cache st)(name \<mapsto> g), next_id := Suc (next_id st)\<rparr>)
         \<and> org_name g = name"
  using get_org_traced_miss [OF assms, of self] by (auto simp: get_org_def)

text \<open>What one call does to the cache.\<close>

lemma get_org_step:
  "\<exists>created g st'. get_org self name st = Inr ((created, Some g), st')
     \<and> created = (org_cache st name = None)
     \<and> org_cache st' = (org_cache st)(name \<mapsto> g)
     \<and> (\<forall>h. org_cache st name = Some h \<longrightarrow> g = h)"
proof (cases "org_cache st name")
  case None
  from get_org_miss [OF None, of self] None show ?thesis by auto
next
  case (Some h)
  from get_org_hit [OF Some, of self] Some show ?thesis by (auto simp: fun_upd_idem)
qed

lemma get_orgs_cached:
  "\<exists>rs st'. get_orgs self names st = Inr (rs, st')
     \<and> length rs = length names
     \<and> (\<forall>k g. org_cache st k = Some g \<longrightarrow> org_cache st' k = Some g)
     \<and> (\<forall>j g. j < length names \<and> org_cache st (names ! j) = Some g
            \<longrightarrow> rs ! j = (False, Some g))"
proof (induction names arbitrary: st)
  case Nil
  show ?case by simp
next
  case (Cons n ns)
  obtain created g st1 where
    step: "get_org self n st = Inr ((created, Some g), st1)" and
    cache1: "org_cache st1 = (org_cache st)(n \<mapsto> g)" and
    same: "\<forall>h. org_cache st n = Some h \<longrightarrow> g = h" and
    created: "created = (org_cache st n = None)"
    using get_org_step [of self n st] by blast
  obtain rs st' where
    run: "get_orgs self ns st1 = Inr (rs, st')" and
    len: "length rs = length ns" and
    keep: "\<forall>k g. org_cache st1 k = Some g \<longrightarrow> org_cache st' k = Some g" and
    hits: "\<forall>j g. j < length ns \<and> org_cache st1 (ns ! j) = Some g \<longrightarrow> rs ! j = (False, Some g)"
    using Cons.IH [of st1] by blast
  have old: "org_cache st k = Some h \<Longrightarrow> org_cache st1 k = Some h" for k h
    using cache1 same by (cases "k = n") auto
  have "get_orgs self (n # ns) st = Inr ((created, Some g) # rs, st')"
    using step run by simp
  moreover have "length ((created, Some g) # rs) = length (n # ns)"
    using len by simp
  moreover have "\<forall>k h. org_cache st k = Some h \<longrightarrow> org_cache st' k = Some h"
    using old keep by blast
  moreover have "\<forall>j h. j < length (n # ns) \<and> org_cache st ((n # ns) ! j) = Some h
            \<longrightarrow> ((created, Some g) # rs) ! j = (False, Some h)"
  proof (intro allI impI)
    fix j h
    assume a: "j < length (n # ns) \<and> org_cache st ((n # ns) ! j) = Some h"
    show "((created, Some g) # rs) ! j = (False, Some h)"
    proof (cases j)
      case 0
      with a same created show ?thesis by simp
    next
      case (Suc i)
      with a have "i < length ns" "org_cache st1 (ns ! i) = Some h"
        using old by simp_all
      with hits Suc show ?thesis by simp
    qed
  qed
  ultimately show ?case by blast
qed

text \<open>
  C8. A call of \<^verbatim>\<open>get_org\<close> with a name absent from the cache creates an
  organization of that name, stores it under the name and returns it with
  \<^verbatim>\<open>created\<close> true; a call with a cached name returns the cached organization
  with \<^verbatim>\<open>created\<close> false and leaves the state as it is. Over the calls of a
  run, in any order of names: every entry the cache held stays as it was; a call
  returns \<^verbatim>\<open>created\<close> true exactly when its name was not in the cache at the
  start and no earlier call of the run asked for it, so at most one organization
  is created for a name; and every later call with the same name returns the
  object the earlier call returned, with \<^verbatim>\<open>created\<close> false.
\<close>

theorem get_org_caches:
  "(org_cache st name = None \<longrightarrow>
      (\<exists>g. get_org self name st
              = Inr ((True, Some g),
                     st\<lparr>org_cache := (org_cache st)(name \<mapsto> g),
                        next_id := Suc (next_id st)\<rparr>)
            \<and> org_name g = name))
   \<and> (\<forall>g. org_cache st name = Some g \<longrightarrow> get_org self name st = Inr ((False, Some g), st))
   \<and> (\<exists>rs st'. get_orgs self names st = Inr (rs, st')
         \<and> length rs = length names
         \<and> (\<forall>k g. org_cache st k = Some g \<longrightarrow> org_cache st' k = Some g)
         \<and> (\<forall>i. i < length names \<longrightarrow>
               fst (rs ! i) = (org_cache st (names ! i) = None \<and> names ! i \<notin> set (take i names)))
         \<and> (\<forall>i j. i < j \<and> j < length names \<and> names ! i = names ! j
               \<longrightarrow> rs ! j = (False, snd (rs ! i))))"
proof (intro conjI)
  show "org_cache st name = None \<longrightarrow>
      (\<exists>g. get_org self name st
              = Inr ((True, Some g),
                     st\<lparr>org_cache := (org_cache st)(name \<mapsto> g),
                        next_id := Suc (next_id st)\<rparr>)
            \<and> org_name g = name)"
    using get_org_miss by blast
  show "\<forall>g. org_cache st name = Some g \<longrightarrow> get_org self name st = Inr ((False, Some g), st)"
    using get_org_hit by blast
  show "\<exists>rs st'. get_orgs self names st = Inr (rs, st')
         \<and> length rs = length names
         \<and> (\<forall>k g. org_cache st k = Some g \<longrightarrow> org_cache st' k = Some g)
         \<and> (\<forall>i. i < length names \<longrightarrow>
               fst (rs ! i) = (org_cache st (names ! i) = None \<and> names ! i \<notin> set (take i names)))
         \<and> (\<forall>i j. i < j \<and> j < length names \<and> names ! i = names ! j
               \<longrightarrow> rs ! j = (False, snd (rs ! i)))"
  proof (induction names arbitrary: st)
    case Nil
    show ?case by simp
  next
    case (Cons n ns)
    obtain created g st1 where
      step: "get_org self n st = Inr ((created, Some g), st1)" and
      cache1: "org_cache st1 = (org_cache st)(n \<mapsto> g)" and
      same: "\<forall>h. org_cache st n = Some h \<longrightarrow> g = h" and
      created: "created = (org_cache st n = None)"
      using get_org_step [of self n st] by blast
    obtain rs st' where
      run: "get_orgs self ns st1 = Inr (rs, st')" and
      len: "length rs = length ns" and
      keep: "\<forall>k g. org_cache st1 k = Some g \<longrightarrow> org_cache st' k = Some g" and
      first: "\<forall>i. i < length ns \<longrightarrow>
               fst (rs ! i) = (org_cache st1 (ns ! i) = None \<and> ns ! i \<notin> set (take i ns))" and
      later: "\<forall>i j. i < j \<and> j < length ns \<and> ns ! i = ns ! j
               \<longrightarrow> rs ! j = (False, snd (rs ! i))"
      using Cons.IH [of st1] by blast
    have hits: "\<forall>j h. j < length ns \<and> org_cache st1 (ns ! j) = Some h
            \<longrightarrow> rs ! j = (False, Some h)"
      using get_orgs_cached [of self ns st1] run by auto
    have old: "org_cache st k = Some h \<Longrightarrow> org_cache st1 k = Some h" for k h
      using cache1 same by (cases "k = n") auto
    let ?rs = "(created, Some g) # rs"
    have 1: "get_orgs self (n # ns) st = Inr (?rs, st')"
      using step run by simp
    have 2: "length ?rs = length (n # ns)"
      using len by simp
    have 3: "\<forall>k h. org_cache st k = Some h \<longrightarrow> org_cache st' k = Some h"
      using old keep by blast
    have 4: "\<forall>i. i < length (n # ns) \<longrightarrow>
               fst (?rs ! i) = (org_cache st ((n # ns) ! i) = None
                                 \<and> (n # ns) ! i \<notin> set (take i (n # ns)))"
    proof (intro allI impI)
      fix i assume i: "i < length (n # ns)"
      show "fst (?rs ! i) = (org_cache st ((n # ns) ! i) = None
                                 \<and> (n # ns) ! i \<notin> set (take i (n # ns)))"
      proof (cases i)
        case 0
        with created show ?thesis by simp
      next
        case (Suc m)
        with i have m: "m < length ns" by simp
        have "(org_cache st1 (ns ! m) = None) = (org_cache st (ns ! m) = None \<and> ns ! m \<noteq> n)"
          by (simp add: cache1)
        with first m Suc show ?thesis by auto
      qed
    qed
    have 5: "\<forall>i j. i < j \<and> j < length (n # ns) \<and> (n # ns) ! i = (n # ns) ! j
               \<longrightarrow> ?rs ! j = (False, snd (?rs ! i))"
    proof (intro allI impI)
      fix i j assume a: "i < j \<and> j < length (n # ns) \<and> (n # ns) ! i = (n # ns) ! j"
      then obtain m where j: "j = Suc m" by (cases j) auto
      show "?rs ! j = (False, snd (?rs ! i))"
      proof (cases i)
        case 0
        with a j have "m < length ns" "org_cache st1 (ns ! m) = Some g"
          by (simp_all add: cache1)
        with hits 0 j show ?thesis by simp
      next
        case (Suc l)
        with a j later show ?thesis by simp
      qed
    qed
    from 1 2 3 4 5 show ?case by blast
  qed
qed

theorem get_org_caches_witness:
  "org_cache example_run_state ''Finance Committee'' = None
   \<and> org_cache example_run_state ''City Council'' = Some city_council
   \<and> get_org example_converter ''City Council'' example_run_state
       = Inr ((False, Some city_council), example_run_state)
   \<and> \<not> isl (get_orgs example_converter
               [''Finance Committee'', ''City Council'', ''Finance Committee''] example_run_state)
   \<and> fst (projr (get_orgs example_converter
               [''Finance Committee'', ''City Council'', ''Finance Committee''] example_run_state))
       = [(True, Some finance_committee), (False, Some city_council),
          (False, Some finance_committee)]"
  using get_org_caches [of example_run_state "''Finance Committee''" example_converter
      "[''Finance Committee'', ''City Council'', ''Finance Committee'']"]
    get_org_caches [of example_run_state "''City Council''" example_converter "[]"]
  by (simp add: get_org_def org_eval_defs)

end
